theory Spec2Isabelle
  imports Complex_Main "HOL-Library.Multiset"
begin

section \<open>The form client (front/src/App.jsx)\<close>

subsection \<open>JavaScript values held by the form\<close>

text \<open>
  A JavaScript string is a sequence of UTF-16 code units, modelled as a list of naturals.
  \<open>js\<close> writes an ASCII literal as such a list.
\<close>

type_synonym jsstring = "nat list"

definition js :: "string \<Rightarrow> jsstring" where
  "js s = map of_char s"

text \<open>
  A JavaScript number is a finite value, one of the two infinities, or NaN. A finite
  value carries the mathematical value of the literal it was read from: the rounding of
  that value to the nearest binary64 number is not modelled, and neither is the sign of
  zero. Whether a literal is finite at all is modelled exactly: a value whose magnitude
  reaches \<open>2^1024 - 2^970\<close> rounds to an infinity.
\<close>

datatype jsnum = Finite real | PosInfinity | NegInfinity | NaN

text \<open>The form state holds numbers (the initial ids) and strings (every edited field).\<close>

datatype jsval = VNum jsnum | VStr jsstring

definition isWhiteSpace :: "nat \<Rightarrow> bool" where
  "isWhiteSpace c \<longleftrightarrow>
     c = 9 \<or> c = 10 \<or> c = 11 \<or> c = 12 \<or> c = 13 \<or> c = 32 \<or> c = 160 \<or> c = 5760 \<or>
     (8192 \<le> c \<and> c \<le> 8202) \<or> c = 8232 \<or> c = 8233 \<or> c = 8239 \<or> c = 8287 \<or>
     c = 12288 \<or> c = 65279"

text \<open>\<open>String.prototype.trim\<close>: white space and line terminators go from both ends.\<close>

definition trim :: "jsstring \<Rightarrow> jsstring" where
  "trim s = rev (dropWhile isWhiteSpace (rev (dropWhile isWhiteSpace s)))"

text \<open>
  \<open>String.prototype.split\<close> with a one-character separator: the empty string gives
  one empty piece, and \<open>n\<close> separators give \<open>n + 1\<close> pieces.
\<close>

fun split :: "nat \<Rightarrow> jsstring \<Rightarrow> jsstring list" where
  "split sep [] = [[]]"
| "split sep (c # cs) =
     (if c = sep then [] # split sep cs
      else (case split sep cs of
              [] \<Rightarrow> [[c]]
            | t # ts \<Rightarrow> (c # t) # ts))"

definition isDigit :: "nat \<Rightarrow> bool" where
  "isDigit c \<longleftrightarrow> 48 \<le> c \<and> c \<le> 57"

text \<open>The value of a digit in base 16 (and so in bases 2, 8 and 10), if it is one.\<close>

definition digitValue :: "nat \<Rightarrow> nat option" where
  "digitValue c =
     (if 48 \<le> c \<and> c \<le> 57 then Some (c - 48)
      else if 97 \<le> c \<and> c \<le> 102 then Some (c - 87)
      else if 65 \<le> c \<and> c \<le> 70 then Some (c - 55)
      else None)"

fun digitsIn :: "nat \<Rightarrow> jsstring \<Rightarrow> nat \<Rightarrow> nat option" where
  "digitsIn base [] acc = Some acc"
| "digitsIn base (c # cs) acc =
     (case digitValue c of
        None \<Rightarrow> None
      | Some d \<Rightarrow> if d < base then digitsIn base cs (acc * base + d) else None)"

text \<open>A non-empty run of digits of the base, read as a natural number.\<close>

definition parseDigits :: "nat \<Rightarrow> jsstring \<Rightarrow> nat option" where
  "parseDigits base ds = (if ds = [] then None else digitsIn base ds 0)"

text \<open>Rounding to binary64 overflows to an infinity from \<open>2^1024 - 2^970\<close> on.\<close>

definition mkNumber :: "real \<Rightarrow> jsnum" where
  "mkNumber v =
     (if 2 ^ 1024 - 2 ^ 970 \<le> v then PosInfinity
      else if v \<le> - (2 ^ 1024 - 2 ^ 970) then NegInfinity
      else Finite v)"

definition negate :: "jsnum \<Rightarrow> jsnum" where
  "negate x = (case x of Finite v \<Rightarrow> Finite (- v) | PosInfinity \<Rightarrow> NegInfinity
                 | NegInfinity \<Rightarrow> PosInfinity | NaN \<Rightarrow> NaN)"

text \<open>The exponent part of a decimal literal: nothing, or e/E, an optional sign and digits.\<close>

definition parseExponent :: "jsstring \<Rightarrow> int option" where
  "parseExponent r =
     (case r of
        [] \<Rightarrow> Some 0
      | c # r' \<Rightarrow>
          if c = 101 \<or> c = 69 then
            (case r' of
               [] \<Rightarrow> None
             | s # r'' \<Rightarrow>
                 if s = 43 then map_option int (parseDigits 10 r'')
                 else if s = 45 then map_option (\<lambda>e. - int e) (parseDigits 10 r'')
                 else map_option int (parseDigits 10 r'))
          else None)"

definition scale10 :: "nat \<Rightarrow> int \<Rightarrow> real" where
  "scale10 m e = (if 0 \<le> e then real m * 10 ^ nat e else real m / 10 ^ nat (- e))"

text \<open>
  StrUnsignedDecimalLiteral: \<open>Infinity\<close>, or digits with an optional fraction and an
  optional exponent, at least one digit before or after the point.
\<close>

definition parseUnsignedDecimal :: "jsstring \<Rightarrow> jsnum" where
  "parseUnsignedDecimal u =
     (if u = js ''Infinity'' then PosInfinity
      else
        let ip = takeWhile isDigit u;
            r1 = dropWhile isDigit u;
            fp = (case r1 of [] \<Rightarrow> [] | c # r \<Rightarrow> if c = 46 then takeWhile isDigit r else []);
            r2 = (case r1 of [] \<Rightarrow> [] | c # r \<Rightarrow> if c = 46 then dropWhile isDigit r else r1)
        in if ip = [] \<and> fp = [] then NaN
           else (case (parseDigits 10 (ip @ fp), parseExponent r2) of
                   (Some m, Some e) \<Rightarrow> mkNumber (scale10 m (e - int (length fp)))
                 | _ \<Rightarrow> NaN))"

text \<open>
  StringToNumber: white space is stripped; the empty string is 0; a literal with prefix
  0x, 0o or 0b (either case) is read in its base and takes no sign; anything else is a
  signed decimal literal or NaN.
\<close>

definition StringToNumber :: "jsstring \<Rightarrow> jsnum" where
  "StringToNumber s =
     (let t = trim s in
      case t of
        [] \<Rightarrow> Finite 0
      | c # r \<Rightarrow>
          if c = 48 \<and> r \<noteq> [] \<and> (hd r = 120 \<or> hd r = 88) then
            (case parseDigits 16 (tl r) of None \<Rightarrow> NaN | Some m \<Rightarrow> mkNumber (real m))
          else if c = 48 \<and> r \<noteq> [] \<and> (hd r = 111 \<or> hd r = 79) then
            (case parseDigits 8 (tl r) of None \<Rightarrow> NaN | Some m \<Rightarrow> mkNumber (real m))
          else if c = 48 \<and> r \<noteq> [] \<and> (hd r = 98 \<or> hd r = 66) then
            (case parseDigits 2 (tl r) of None \<Rightarrow> NaN | Some m \<Rightarrow> mkNumber (real m))
          else if c = 43 then parseUnsignedDecimal r
          else if c = 45 then negate (parseUnsignedDecimal r)
          else parseUnsignedDecimal t)"

text \<open>\<open>Number(value)\<close> on the values the form holds.\<close>

definition Number :: "jsval \<Rightarrow> jsnum" where
  "Number v = (case v of VNum n \<Rightarrow> n | VStr s \<Rightarrow> StringToNumber s)"

definition isFinite :: "jsnum \<Rightarrow> bool" where
  "isFinite n = (case n of Finite v \<Rightarrow> True | _ \<Rightarrow> False)"

text \<open>\<open>Math.PI\<close> is the binary64 number nearest to the circle constant.\<close>

definition Math_PI :: jsnum where
  "Math_PI = Finite (884279719003555 / 281474976710656)"

subsection \<open>The helpers of the first component\<close>

text \<open>
  \<open>toNumber(value, fallback = 0)\<close>: the second argument is optional, \<open>None\<close> standing
  for a call that leaves it out.
\<close>

definition toNumber :: "jsval \<Rightarrow> jsnum option \<Rightarrow> jsnum" where
  "toNumber v fallback =
     (let n = Number v
      in if isFinite n then n
         else (case fallback of None \<Rightarrow> Finite 0 | Some f \<Rightarrow> f))"

definition parseStations :: "jsstring \<Rightarrow> jsnum list" where
  "parseStations v =
     filter (\<lambda>n. isFinite n) (map (\<lambda>part. Number (VStr (trim part))) (split 44 v))"

subsection \<open>Form state and payload\<close>

record StationTypeForm =
  sf_id :: jsval
  sf_coverageArea :: jsval
  sf_handoverMin :: jsval
  sf_handoverMax :: jsval

record HandoverForm =
  hf_stationTypeId :: jsval
  hf_value :: jsval

record DistrictForm =
  df_id :: jsstring
  df_area :: jsval
  df_k :: jsval
  df_stations :: jsstring

record FormState =
  fs_pi :: jsval
  fs_stationTypes :: "StationTypeForm list"
  fs_handovers :: "HandoverForm list"
  fs_districts :: "DistrictForm list"

record StationTypePayload =
  sp_id :: jsnum
  sp_coverageArea :: jsnum
  sp_handoverMin :: jsnum
  sp_handoverMax :: jsnum

record HandoverPayload =
  hp_stationTypeId :: jsnum
  hp_value :: jsnum

record DistrictPayload =
  dp_id :: jsstring
  dp_area :: jsnum
  dp_k :: jsnum
  dp_stations :: "jsnum list"

record Payload =
  p_pi :: jsnum
  p_stationTypes :: "StationTypePayload list"
  p_handovers :: "HandoverPayload list"
  p_districts :: "DistrictPayload list"

definition buildPayloadFromForm :: "FormState \<Rightarrow> Payload" where
  "buildPayloadFromForm fs =
     \<lparr> p_pi = toNumber (fs_pi fs) (Some Math_PI),
       p_stationTypes = map (\<lambda>st.
         \<lparr> sp_id = toNumber (sf_id st) None,
           sp_coverageArea = toNumber (sf_coverageArea st) None,
           sp_handoverMin = toNumber (sf_handoverMin st) None,
           sp_handoverMax = toNumber (sf_handoverMax st) None \<rparr>) (fs_stationTypes fs),
       p_handovers = map (\<lambda>h.
         \<lparr> hp_stationTypeId = toNumber (hf_stationTypeId h) None,
           hp_value = toNumber (hf_value h) None \<rparr>) (fs_handovers fs),
       p_districts = map (\<lambda>d.
         \<lparr> dp_id = df_id d,
           dp_area = toNumber (df_area d) None,
           dp_k = toNumber (df_k d) None,
           dp_stations = parseStations (df_stations d) \<rparr>) (fs_districts fs) \<rparr>"

subsection \<open>The second component\<close>

text \<open>
  The second component declares its own \<open>toNumber\<close> and \<open>parseStations\<close> and builds the
  payload inside \<open>handleSubmit\<close>.
\<close>

definition toNumber2 :: "jsval \<Rightarrow> jsnum option \<Rightarrow> jsnum" where
  "toNumber2 v fallback =
     (let n = Number v
      in if isFinite n then n
         else (case fallback of None \<Rightarrow> Finite 0 | Some f \<Rightarrow> f))"

definition parseStations2 :: "jsstring \<Rightarrow> jsnum list" where
  "parseStations2 v =
     filter (\<lambda>n. isFinite n) (map (\<lambda>part. Number (VStr (trim part))) (split 44 v))"

definition handleSubmit_payload :: "FormState \<Rightarrow> Payload" where
  "handleSubmit_payload fs =
     \<lparr> p_pi = toNumber2 (fs_pi fs) (Some Math_PI),
       p_stationTypes = map (\<lambda>st.
         \<lparr> sp_id = toNumber2 (sf_id st) None,
           sp_coverageArea = toNumber2 (sf_coverageArea st) None,
           sp_handoverMin = toNumber2 (sf_handoverMin st) None,
           sp_handoverMax = toNumber2 (sf_handoverMax st) None \<rparr>) (fs_stationTypes fs),
       p_handovers = map (\<lambda>h.
         \<lparr> hp_stationTypeId = toNumber2 (hf_stationTypeId h) None,
           hp_value = toNumber2 (hf_value h) None \<rparr>) (fs_handovers fs),
       p_districts = map (\<lambda>d.
         \<lparr> dp_id = df_id d,
           dp_area = toNumber2 (df_area d) None,
           dp_k = toNumber2 (df_k d) None,
           dp_stations = parseStations2 (df_stations d) \<rparr>) (fs_districts fs) \<rparr>"

text \<open>Every number in a payload is finite.\<close>

definition payloadFinite :: "Payload \<Rightarrow> bool" where
  "payloadFinite p \<longleftrightarrow>
     isFinite (p_pi p) \<and>
     list_all (\<lambda>st. isFinite (sp_id st) \<and> isFinite (sp_coverageArea st) \<and>
                     isFinite (sp_handoverMin st) \<and> isFinite (sp_handoverMax st))
              (p_stationTypes p) \<and>
     list_all (\<lambda>h. isFinite (hp_stationTypeId h) \<and> isFinite (hp_value h)) (p_handovers p) \<and>
     list_all (\<lambda>d. isFinite (dp_area d) \<and> isFinite (dp_k d) \<and> list_all isFinite (dp_stations d))
              (p_districts p)"

section \<open>The calculation service\<close>

text \<open>
  Modelled from the spec: the calculation service itself (the validator, the resolver
  of missing handover values and the engine behind \<open>POST /api/v1/calculate\<close>) is not
  among the sources; only its README and its form client are. Every definition of this
  section follows sections 3, 4 and 5 of the specification; the README states the same
  formulas and validation rules. Floating-point numbers are modelled as reals.
\<close>

subsection \<open>Data model\<close>

text \<open>
  Modelled from the spec: the records of section 3, with the field names of the README's
  JSON; the model declarations of the service are missing from the sources.
\<close>

record StationType =
  st_id :: int
  coverageArea :: real
  handoverMin :: real
  handoverMax :: real

record HandoverEntry =
  he_stationTypeId :: int
  he_value :: real

record DistrictInput =
  d_id :: string
  d_area :: real
  d_k :: real
  d_stations :: "int list"

record CalculationRequest =
  req_pi :: real
  stationTypes :: "StationType list"
  handovers :: "HandoverEntry list"
  districts :: "DistrictInput list"

record DistrictResult =
  districtId :: string
  r_n :: real
  r_handoverAvg :: real
  r_handoverAdjusted :: bool

record CalculationResponse =
  districtResults :: "DistrictResult list"
  totalN :: real

text \<open>
  Modelled from the spec: the three kinds of failure of section 7, which the missing
  sources would declare; a validation failure identifies the offending entity.
\<close>

datatype ValidationFailure =
    AreaNotPositive string
  | KNotPositive string
  | TooFewStations string
  | CoverageNotPositive int
  | DuplicateStationType int
  | NoHandoverData int
  | ExternalNotFound int
  | UnknownStationType int

datatype error =
    ValidationError ValidationFailure
  | ResolutionError int
  | ComputationError string

subsection \<open>Validator\<close>

text \<open>
  Modelled from the spec: the validator is missing from the sources. By section 4.1 a
  district needs a positive area, a positive k and at least three stations, a station
  type a positive coverage area, and station-type ids are unique; the first failure is
  reported, scanning the districts in input order and then the station types.
\<close>

definition validate_district :: "DistrictInput \<Rightarrow> ValidationFailure option" where
  "validate_district d =
     (if d_area d \<le> 0 then Some (AreaNotPositive (d_id d))
      else if d_k d \<le> 0 then Some (KNotPositive (d_id d))
      else if length (d_stations d) < 3 then Some (TooFewStations (d_id d))
      else None)"

definition validate_station_type :: "StationType \<Rightarrow> ValidationFailure option" where
  "validate_station_type t =
     (if coverageArea t \<le> 0 then Some (CoverageNotPositive (st_id t)) else None)"

fun first_failure :: "('a \<Rightarrow> ValidationFailure option) \<Rightarrow> 'a list \<Rightarrow> ValidationFailure option" where
  "first_failure chk [] = None"
| "first_failure chk (x # xs) =
     (case chk x of Some e \<Rightarrow> Some e | None \<Rightarrow> first_failure chk xs)"

fun duplicate_id :: "int list \<Rightarrow> int option" where
  "duplicate_id [] = None"
| "duplicate_id (i # ids) = (if i \<in> set ids then Some i else duplicate_id ids)"

definition validate :: "CalculationRequest \<Rightarrow> ValidationFailure option" where
  "validate req =
     (case first_failure validate_district (districts req) of
        Some e \<Rightarrow> Some e
      | None \<Rightarrow>
          (case first_failure validate_station_type (stationTypes req) of
             Some e \<Rightarrow> Some e
           | None \<Rightarrow> map_option DuplicateStationType (duplicate_id (map st_id (stationTypes req)))))"

subsection \<open>Resolver of missing handover values\<close>

text \<open>
  Modelled from the spec: the resolver is missing from the sources. By section 4.2 the
  external source answers a lookup with a value, with "not found", or not at all;
  \<open>None\<close> for the source means that no address is configured, and then an id without
  a handover entry is a validation failure.
\<close>

datatype lookup_result = Found real | NotFound | Unreachable

type_synonym external_source = "(int \<Rightarrow> lookup_result) option"

definition handover_map :: "HandoverEntry list \<Rightarrow> (int \<rightharpoonup> real)" where
  "handover_map hs = map_of (map (\<lambda>h. (he_stationTypeId h, he_value h)) hs)"

definition find_station_type :: "StationType list \<Rightarrow> int \<Rightarrow> StationType option" where
  "find_station_type sts i = find (\<lambda>t. st_id t = i) sts"

definition resolve_handover :: "external_source \<Rightarrow> (int \<rightharpoonup> real) \<Rightarrow> int
                                  \<Rightarrow> error + (int \<rightharpoonup> real)" where
  "resolve_handover ext eff i =
     (case eff i of
        Some v \<Rightarrow> Inr eff
      | None \<Rightarrow>
          (case ext of
             None \<Rightarrow> Inl (ValidationError (NoHandoverData i))
           | Some look \<Rightarrow>
               (case look i of
                  Found v \<Rightarrow> Inr (eff(i \<mapsto> v))
                | NotFound \<Rightarrow> Inl (ValidationError (ExternalNotFound i))
                | Unreachable \<Rightarrow> Inl (ResolutionError i))))"

text \<open>
  Modelled from the spec: the ids are taken in the order in which the districts list
  them. Every id needs a handover value (supplied, or looked up once and merged into the
  effective map) and a station type.
\<close>

fun resolve :: "external_source \<Rightarrow> StationType list \<Rightarrow> (int \<rightharpoonup> real) \<Rightarrow> int list
                  \<Rightarrow> error + (int \<rightharpoonup> real)" where
  "resolve ext sts eff [] = Inr eff"
| "resolve ext sts eff (i # ids) =
     (case resolve_handover ext eff i of
        Inl e \<Rightarrow> Inl e
      | Inr eff' \<Rightarrow>
          (case find_station_type sts i of
             None \<Rightarrow> Inl (ValidationError (UnknownStationType i))
           | Some t \<Rightarrow> resolve ext sts eff' ids))"

definition referenced_ids :: "CalculationRequest \<Rightarrow> int list" where
  "referenced_ids req = concat (map d_stations (districts req))"

subsection \<open>Calculation engine\<close>

text \<open>
  Modelled from the spec: the engine is missing from the sources. The formulas are those
  of section 4.3, which are also the README's: \<open>R = sqrt (S / pi)\<close>,
  \<open>Li = K * (R0 / Ri)^2\<close>, L the mean of the Li, C from the three largest radii,
  \<open>n = L / C\<close>, and the factor 1.4 when the handover mean is below some \<open>handoverMin\<close>.
\<close>

definition radius :: "real \<Rightarrow> real \<Rightarrow> real" where
  "radius p a = sqrt (a / p)"

definition mean :: "real list \<Rightarrow> real" where
  "mean xs = sum_list xs / real (length xs)"

definition round2 :: "real \<Rightarrow> real" where
  "round2 x = real_of_int (round (x * 100)) / 100"

definition Li :: "real \<Rightarrow> DistrictInput \<Rightarrow> StationType \<Rightarrow> real" where
  "Li p d t = d_k d * (radius p (d_area d) / radius p (coverageArea t)) ^ 2"

definition district_L :: "real \<Rightarrow> DistrictInput \<Rightarrow> StationType list \<Rightarrow> real" where
  "district_L p d ts = mean (map (Li p d) ts)"

text \<open>
  Modelled from the spec: the three largest radii come from a stable sort of the
  occurrences by descending radius, of which the first three are kept, so that among
  equal radii the occurrence met first wins.
\<close>

definition top3 :: "real \<Rightarrow> StationType list \<Rightarrow> StationType list" where
  "top3 p ts = take 3 (sort_key (\<lambda>t. - radius p (coverageArea t)) ts)"

fun cluster_factor :: "real list \<Rightarrow> real option" where
  "cluster_factor [R1, R2, R3] =
     Some ((2 * R1) powr (5 / 2) + (2 * R2) powr (3 / 2) + (2 * R3) powr (1 / 2))"
| "cluster_factor _ = None"

definition district_C :: "real \<Rightarrow> StationType list \<Rightarrow> real option" where
  "district_C p ts = cluster_factor (map (\<lambda>t. radius p (coverageArea t)) (top3 p ts))"

text \<open>The values of one district at full precision.\<close>

record DistrictCalc =
  c_districtId :: string
  c_L :: real
  c_C :: real
  c_n0 :: real
  c_handoverAvg :: real
  c_adjusted :: bool
  c_n :: real

text \<open>
  Modelled from the spec: the steps of section 4.3 for one district. \<open>ts\<close> holds the
  station types of the district's station occurrences, and \<open>hs\<close> the effective handover
  values of its distinct station types, one value for each type. A cluster factor of
  zero is a computation error.
\<close>

definition calc_district :: "real \<Rightarrow> DistrictInput \<Rightarrow> StationType list \<Rightarrow> real list
                               \<Rightarrow> error + DistrictCalc" where
  "calc_district p d ts hs =
     (case district_C p ts of
        None \<Rightarrow> Inl (ComputationError ''stations'')
      | Some C \<Rightarrow>
          if C = 0 then Inl (ComputationError ''C'')
          else
            let L = district_L p d ts;
                n0 = L / C;
                avg = mean hs;
                adjusted = list_ex (\<lambda>t. avg < handoverMin t) ts
            in Inr \<lparr> c_districtId = d_id d, c_L = L, c_C = C, c_n0 = n0,
                     c_handoverAvg = avg, c_adjusted = adjusted,
                     c_n = (if adjusted then n0 * 1.4 else n0) \<rparr>)"

fun lookup_all :: "('a \<Rightarrow> 'b option) \<Rightarrow> 'a list \<Rightarrow> 'b list option" where
  "lookup_all f [] = Some []"
| "lookup_all f (x # xs) =
     (case f x of
        None \<Rightarrow> None
      | Some y \<Rightarrow> (case lookup_all f xs of None \<Rightarrow> None | Some ys \<Rightarrow> Some (y # ys)))"

definition district_types :: "StationType list \<Rightarrow> DistrictInput \<Rightarrow> StationType list option" where
  "district_types sts d = lookup_all (find_station_type sts) (d_stations d)"

text \<open>
  Modelled from the spec: the handover values of a district are those of its distinct
  station types, so an id listed several times is looked up once.
\<close>

definition district_handovers :: "(int \<rightharpoonup> real) \<Rightarrow> DistrictInput \<Rightarrow> real list option" where
  "district_handovers eff d = lookup_all eff (remdups (d_stations d))"

definition calc_request_district :: "real \<Rightarrow> StationType list \<Rightarrow> (int \<rightharpoonup> real) \<Rightarrow> DistrictInput
                                       \<Rightarrow> error + DistrictCalc" where
  "calc_request_district p sts eff d =
     (case (district_types sts d, district_handovers eff d) of
        (Some ts, Some hs) \<Rightarrow> calc_district p d ts hs
      | _ \<Rightarrow> Inl (ComputationError ''unresolved''))"

fun calc_all :: "real \<Rightarrow> StationType list \<Rightarrow> (int \<rightharpoonup> real) \<Rightarrow> DistrictInput list
                   \<Rightarrow> error + DistrictCalc list" where
  "calc_all p sts eff [] = Inr []"
| "calc_all p sts eff (d # ds) =
     (case calc_request_district p sts eff d of
        Inl e \<Rightarrow> Inl e
      | Inr c \<Rightarrow> (case calc_all p sts eff ds of Inl e \<Rightarrow> Inl e | Inr cs \<Rightarrow> Inr (c # cs)))"

text \<open>
  Modelled from the spec: the output record carries n and the handover mean rounded to
  two decimals, and the total is the full-precision sum rounded once.
\<close>

definition district_result :: "DistrictCalc \<Rightarrow> DistrictResult" where
  "district_result c =
     \<lparr> districtId = c_districtId c, r_n = round2 (c_n c),
       r_handoverAvg = round2 (c_handoverAvg c), r_handoverAdjusted = c_adjusted c \<rparr>"

definition response :: "DistrictCalc list \<Rightarrow> CalculationResponse" where
  "response cs =
     \<lparr> districtResults = map district_result cs, totalN = round2 (sum_list (map c_n cs)) \<rparr>"

definition calculate :: "CalculationRequest \<Rightarrow> (int \<rightharpoonup> real) \<Rightarrow> error + CalculationResponse" where
  "calculate req eff =
     (case calc_all (req_pi req) (stationTypes req) eff (districts req) of
        Inl e \<Rightarrow> Inl e
      | Inr cs \<Rightarrow> Inr (response cs))"

subsection \<open>The request pipeline\<close>

text \<open>
  Modelled from the spec: the request handler is missing from the sources. By section 5
  it validates, then resolves, then computes; the first failure ends the request, and no
  response is produced.
\<close>

definition handle_request :: "external_source \<Rightarrow> CalculationRequest \<Rightarrow> error + CalculationResponse" where
  "handle_request ext req =
     (case validate req of
        Some e \<Rightarrow> Inl (ValidationError e)
      | None \<Rightarrow>
          (case resolve ext (stationTypes req) (handover_map (handovers req)) (referenced_ids req) of
             Inl e \<Rightarrow> Inl e
           | Inr eff \<Rightarrow> calculate req eff))"


subsection \<open>The README's sample exchange\<close>

text \<open>The request of the README's example.\<close>

definition readme_request :: CalculationRequest where
  "readme_request =
     \<lparr> req_pi = 3.141592653589793,
       stationTypes =
         [\<lparr> st_id = 1, coverageArea = 10, handoverMin = 12, handoverMax = 18 \<rparr>,
          \<lparr> st_id = 2, coverageArea = 15, handoverMin = 10, handoverMax = 16 \<rparr>,
          \<lparr> st_id = 3, coverageArea = 20, handoverMin = 11, handoverMax = 17 \<rparr>],
       handovers =
         [\<lparr> he_stationTypeId = 1, he_value = 14 \<rparr>,
          \<lparr> he_stationTypeId = 2, he_value = 12 \<rparr>,
          \<lparr> he_stationTypeId = 3, he_value = 15 \<rparr>],
       districts =
         [\<lparr> d_id = ''admir'', d_area = 50, d_k = 1.21, d_stations = [1, 2, 2, 3] \<rparr>] \<rparr>"


subsection \<open>Further requests\<close>







text \<open>The README's request with two districts of fewer than three stations.\<close>

definition two_short_request :: CalculationRequest where
  "two_short_request =
     readme_request \<lparr> districts :=
       [\<lparr> d_id = ''d1'', d_area = 50, d_k = 1.21, d_stations = [1, 2] \<rparr>,
        \<lparr> d_id = ''d2'', d_area = 40, d_k = 1, d_stations = [3] \<rparr>] \<rparr>"

text \<open>The README's request with a district that lists station type 9, which has no handover.\<close>

definition missing_handover_request :: CalculationRequest where
  "missing_handover_request =
     readme_request \<lparr> districts :=
       [\<lparr> d_id = ''d1'', d_area = 50, d_k = 1.21, d_stations = [1, 2, 9] \<rparr>] \<rparr>"

text \<open>The same, in a district of area 0.\<close>

definition zero_area_request :: CalculationRequest where
  "zero_area_request =
     readme_request \<lparr> districts :=
       [\<lparr> d_id = ''d1'', d_area = 0, d_k = 1.21, d_stations = [1, 2, 9] \<rparr>] \<rparr>"


section \<open>Properties of the form client\<close>

subsection \<open>Splitting at commas\<close>

lemma split_not_Nil: "split sep s \<noteq> []"
  by (induction s) (auto split: list.splits)

lemma length_split: "length (split sep s) = Suc (count_list s sep)"
  by (induction s) (auto split: list.splits)

lemma split_no_sep: "t \<in> set (split sep s) \<Longrightarrow> sep \<notin> set t"
  by (induction s arbitrary: t) (auto split: list.splits if_splits)

lemma split_join: "concat (map (\<lambda>t. t @ [sep]) (split sep s)) = s @ [sep]"
  by (induction s) (auto split: list.splits simp: split_not_Nil)

subsection \<open>Finite numbers\<close>

lemmas js_eval = js_def trim_def isWhiteSpace_def isDigit_def digitValue_def parseDigits_def
  mkNumber_def negate_def parseExponent_def scale10_def parseUnsignedDecimal_def
  StringToNumber_def Number_def Let_def

lemma isFinite_simps:
  "isFinite (Finite v)" "\<not> isFinite PosInfinity" "\<not> isFinite NegInfinity" "\<not> isFinite NaN"
  by (simp_all add: isFinite_def)

lemma Number_abc: "Number (VStr (js ''abc'')) = NaN"
  by (simp add: js_eval)

lemma Math_PI_finite: "isFinite Math_PI"
  by (simp add: Math_PI_def isFinite_def)

text \<open>An empty pi field is sent as 0: the empty string converts to the finite number 0.\<close>

lemma empty_pi_field: "toNumber (VStr []) (Some Math_PI) = Finite 0"
  by (simp add: toNumber_def Number_def StringToNumber_def trim_def isFinite_def)

lemma toNumber_finite: "isFinite f \<Longrightarrow> isFinite (toNumber v (Some f))"
  by (simp add: toNumber_def Let_def)

lemma toNumber_default_finite: "isFinite (toNumber v None)"
  by (simp add: toNumber_def Let_def isFinite_def)

lemma parseStations_all_finite: "list_all isFinite (parseStations s)"
  by (simp add: parseStations_def list_all_iff)

lemma parseStations_member_finite: "n \<in> set (parseStations s) \<Longrightarrow> isFinite n"
  by (simp add: parseStations_def)

lemma payloadFinite_build: "payloadFinite (buildPayloadFromForm fs)"
  by (simp add: payloadFinite_def buildPayloadFromForm_def list_all_iff
      toNumber_finite toNumber_default_finite Math_PI_finite parseStations_member_finite)

subsection \<open>Station lists typed into the form\<close>

text \<open>
  Claim C8. \<open>parseStations\<close> returns, in the order typed, the numbers of exactly those
  comma-separated pieces whose trimmed text converts to a finite number, and drops every
  other piece without any error. (A piece that is empty after trimming converts to 0 and
  is kept.) The payload takes each district's stations from \<open>parseStations\<close> as they
  are, so the list submitted can be shorter than the number of pieces typed: the three
  pieces of \<open>1,a,b\<close> give the single station 1.
\<close>

theorem parseStations_keeps_finite_tokens:
  "parseStations s =
     map (\<lambda>t. Number (VStr (trim t)))
       (filter (\<lambda>t. isFinite (Number (VStr (trim t)))) (split 44 s))
   \<and> length (parseStations s) \<le> length (split 44 s)
   \<and> list_all isFinite (parseStations s)
   \<and> map dp_stations (p_districts (buildPayloadFromForm fs))
       = map (\<lambda>d. parseStations (df_stations d)) (fs_districts fs)
   \<and> length (split 44 (js ''1,a,b'')) = 3
   \<and> parseStations (js ''1,a,b'') = [Finite 1]"
proof -
  have "parseStations s =
     map (\<lambda>t. Number (VStr (trim t)))
       (filter (\<lambda>t. isFinite (Number (VStr (trim t)))) (split 44 s))"
    by (simp add: parseStations_def filter_map comp_def)
  moreover have "length (parseStations s) \<le> length (split 44 s)"
    unfolding parseStations_def
    by (rule order_trans [OF length_filter_le]) simp
  moreover have "map dp_stations (p_districts (buildPayloadFromForm fs))
       = map (\<lambda>d. parseStations (df_stations d)) (fs_districts fs)"
    by (simp add: buildPayloadFromForm_def comp_def)
  moreover have "length (split 44 (js ''1,a,b'')) = 3"
    by (simp add: js_def)
  moreover have "parseStations (js ''1,a,b'') = [Finite 1]"
    by (simp add: parseStations_def isFinite_def js_eval)
  ultimately show ?thesis
    using parseStations_all_finite [of s] by blast
qed

theorem parseStations_keeps_finite_tokens_witness:
  "parseStations (js ''7,x, 8 ,'') = [Finite 7, Finite 8, Finite 0]
   \<and> length (split 44 (js ''7,x, 8 ,'')) = 4"
proof -
  have "filter (\<lambda>t. isFinite (Number (VStr (trim t)))) (split 44 (js ''7,x, 8 ,''))
          = [js ''7'', js '' 8 '', []]"
    by (simp add: isFinite_def js_eval)
  with parseStations_keeps_finite_tokens [of "js ''7,x, 8 ,''"]
  have "parseStations (js ''7,x, 8 ,'')
          = map (\<lambda>t. Number (VStr (trim t))) [js ''7'', js '' 8 '', []]"
    by simp
  then show ?thesis
    by (simp add: js_eval)
qed

subsection \<open>Numbers read from form fields\<close>

text \<open>
  Claim C9, as stated for every fallback, fails: \<open>toNumber\<close> hands back whatever fallback
  it was given, so with the fallback NaN the text \<open>abc\<close> yields NaN.
\<close>

theorem toNumber_nonfinite_fallback:
  "\<not> isFinite (toNumber (VStr (js ''abc'')) (Some NaN))"
  by (simp add: toNumber_def Number_abc isFinite_def)

text \<open>
  Claim C9, amended. For every value held by the form and every finite fallback,
  \<open>toNumber\<close> returns a finite number: the converted value when that is finite, and the
  fallback otherwise (0 when the call gives none). The component only passes the finite
  fallbacks 0 and \<open>Math.PI\<close>, so every number in a payload built from the form is finite.
\<close>

theorem toNumber_finite_for_finite_fallback:
  "isFinite f \<Longrightarrow>
     toNumber v (Some f) = (if isFinite (Number v) then Number v else f)
   \<and> toNumber v None = (if isFinite (Number v) then Number v else Finite 0)
   \<and> isFinite (toNumber v (Some f))
   \<and> isFinite (toNumber v None)
   \<and> payloadFinite (buildPayloadFromForm fs)"
  by (simp add: toNumber_def Let_def isFinite_def payloadFinite_build)

theorem toNumber_finite_for_finite_fallback_witness:
  "isFinite Math_PI
   \<and> toNumber (VStr (js ''abc'')) (Some Math_PI) = Math_PI
   \<and> toNumber (VStr (js ''abc'')) None = Finite 0
   \<and> payloadFinite (buildPayloadFromForm
        \<lparr> fs_pi = VStr (js ''abc''), fs_stationTypes = [], fs_handovers = [], fs_districts = [] \<rparr>)"
  using toNumber_finite_for_finite_fallback [OF Math_PI_finite, of "VStr (js ''abc'')"
      "\<lparr> fs_pi = VStr (js ''abc''), fs_stationTypes = [], fs_handovers = [], fs_districts = [] \<rparr>"]
  by (simp add: Number_abc isFinite_simps Math_PI_finite)

subsection \<open>The two components build the same payload\<close>

text \<open>
  Claim C10. From the same form state (pi, station types, handovers, districts) the
  payload built inside \<open>handleSubmit\<close> of the second component equals the payload of
  \<open>buildPayloadFromForm\<close> of the first: same fields, same values, lists in the same order.
\<close>

theorem handleSubmit_payload_eq_buildPayloadFromForm:
  "handleSubmit_payload fs = buildPayloadFromForm fs"
proof -
  have n: "toNumber2 = toNumber"
    by (intro ext) (simp add: toNumber2_def toNumber_def)
  have p: "parseStations2 = parseStations"
    by (intro ext) (simp add: parseStations2_def parseStations_def)
  show ?thesis
    by (simp add: handleSubmit_payload_def buildPayloadFromForm_def n p)
qed

section \<open>Properties of the calculation service\<close>

subsection \<open>Validation and resolution\<close>







lemma resolve_no_source:
  "resolve None sts eff ids = Inr eff' \<Longrightarrow> eff' = eff"
  by (induction ids arbitrary: eff)
     (auto simp: resolve_handover_def split: sum.splits option.splits)



subsection \<open>The engine on a validated request\<close>













subsection \<open>Rounding to two decimals\<close>







subsection \<open>A request with pi = 0\<close>










subsection \<open>The cell count L\<close>




subsection \<open>The cluster factor C\<close>




subsection \<open>The handover mean\<close>







subsection \<open>The handover adjustment\<close>









subsection \<open>The total\<close>








subsection \<open>Districts with fewer than three stations\<close>

lemma first_failure_append:
  "first_failure chk (xs @ ys)
     = (case first_failure chk xs of Some e \<Rightarrow> Some e | None \<Rightarrow> first_failure chk ys)"
  by (induction xs) (auto split: option.splits)

lemma validate_district_short:
  "length (d_stations d) < 3 \<Longrightarrow> \<exists>e. validate_district d = Some e"
  by (simp add: validate_district_def)

text \<open>
  Claim C6, amended. For every request containing a district whose station list has
  fewer than 3 occurrences, validation fails with the error of the first invalid district
  up to and including that one, whatever the external source, and the request ends with
  that validation error instead of a response: the engine is not reached. The error is
  this district's "too few stations" when every district before it is valid and its area
  and k are positive.
\<close>

theorem too_few_stations_rejected:
  assumes "districts req = pre @ d # post" and "length (d_stations d) < 3"
  shows "\<exists>e. validate req = Some e
           \<and> handle_request ext req = Inl (ValidationError e)
           \<and> first_failure validate_district (pre @ [d]) = Some e
           \<and> (first_failure validate_district pre = None \<and> 0 < d_area d \<and> 0 < d_k d
                \<longrightarrow> e = TooFewStations (d_id d))"
proof -
  from validate_district_short [OF assms(2)] obtain e0 where e0: "validate_district d = Some e0"
    by blast
  then obtain e where e: "first_failure validate_district (pre @ [d]) = Some e"
    by (cases "first_failure validate_district pre") (simp_all add: first_failure_append)
  with assms(1) e0 have all: "first_failure validate_district (districts req) = Some e"
    by (cases "first_failure validate_district pre") (simp_all add: first_failure_append)
  then have v: "validate req = Some e"
    by (simp add: validate_def)
  then have h: "handle_request ext req = Inl (ValidationError e)"
    by (simp add: handle_request_def)
  have "first_failure validate_district pre = None \<and> 0 < d_area d \<and> 0 < d_k d
          \<longrightarrow> e = TooFewStations (d_id d)"
    using e assms(2) by (auto simp: first_failure_append validate_district_def)
  with v h e show ?thesis by blast
qed

theorem too_few_stations_rejected_witness:
  "districts two_short_request
     = [] @ \<lparr> d_id = ''d1'', d_area = 50, d_k = 1.21, d_stations = [1, 2] \<rparr>
          # [\<lparr> d_id = ''d2'', d_area = 40, d_k = 1, d_stations = [3] \<rparr>]
   \<and> length (d_stations \<lparr> d_id = ''d1'', d_area = 50, d_k = 1.21, d_stations = [1, 2] \<rparr>) < 3
   \<and> validate two_short_request = Some (TooFewStations ''d1'')
   \<and> handle_request None two_short_request = Inl (ValidationError (TooFewStations ''d1''))"
proof -
  have d: "districts two_short_request
     = [] @ \<lparr> d_id = ''d1'', d_area = 50, d_k = 1.21, d_stations = [1, 2] \<rparr>
          # [\<lparr> d_id = ''d2'', d_area = 40, d_k = 1, d_stations = [3] \<rparr>]"
    by (simp add: two_short_request_def)
  have l: "length (d_stations \<lparr> d_id = ''d1'', d_area = 50, d_k = 1.21, d_stations = [1, 2] \<rparr>) < 3"
    by simp
  from too_few_stations_rejected [OF d l, of None] d l show ?thesis
    by auto
qed

text \<open>
  Claim C6, as stated, fails where an earlier district is invalid too: the single error
  reported is the first one, so district \<open>d2\<close> with one station gets no error of its own.
\<close>

theorem too_few_stations_error_names_first_district:
  "handle_request None two_short_request = Inl (ValidationError (TooFewStations ''d1''))
   \<and> d_id (districts two_short_request ! 1) = ''d2''
   \<and> length (d_stations (districts two_short_request ! 1)) < 3"
  by (simp add: handle_request_def validate_def validate_district_def two_short_request_def)

subsection \<open>Station types without a handover value\<close>

lemma resolve_no_source_fails:
  "x \<in> set ids \<Longrightarrow> eff x = None \<Longrightarrow> \<exists>e. resolve None sts eff ids = Inl (ValidationError e)"
proof (induction ids)
  case Nil
  then show ?case by simp
next
  case (Cons i ids)
  show ?case
  proof (cases "eff i")
    case None
    then show ?thesis by (simp add: resolve_handover_def)
  next
    case (Some v)
    with Cons.prems have "x \<in> set ids" by auto
    from Cons.IH [OF this Cons.prems(2)] Some show ?thesis
      by (auto simp: resolve_handover_def split: option.splits)
  qed
qed

lemma resolve_first_missing:
  "\<forall>j\<in>set pre. eff j \<noteq> None \<and> find_station_type sts j \<noteq> None \<Longrightarrow> eff x = None
     \<Longrightarrow> resolve None sts eff (pre @ x # post) = Inl (ValidationError (NoHandoverData x))"
  by (induction pre) (auto simp: resolve_handover_def)

text \<open>
  Claim C7, amended. For every request in which some district lists a station-type id
  that has no entry in \<open>handovers\<close>, with no external source configured, the request
  ends with a validation error and no calculation. The error is "no handover data" for
  that id when the request passes the validator and every id listed before it, in the
  order of the districts and of their station lists, has a handover entry and a station
  type.
\<close>

theorem missing_handover_rejected:
  assumes "x \<in> set (referenced_ids req)" and "handover_map (handovers req) x = None"
  shows "\<exists>e. handle_request None req = Inl (ValidationError e)
           \<and> (validate req = None
                \<and> (\<exists>pre post. referenced_ids req = pre @ x # post
                      \<and> (\<forall>j\<in>set pre. handover_map (handovers req) j \<noteq> None
                                    \<and> find_station_type (stationTypes req) j \<noteq> None))
                \<longrightarrow> e = NoHandoverData x)"
proof (cases "validate req")
  case (Some e)
  then show ?thesis by (simp add: handle_request_def)
next
  case None
  from resolve_no_source_fails [where sts = "stationTypes req"
      and eff = "handover_map (handovers req)" and x = x, OF assms] obtain e
    where e: "resolve None (stationTypes req) (handover_map (handovers req)) (referenced_ids req)
                = Inl (ValidationError e)"
    by blast
  with None have h: "handle_request None req = Inl (ValidationError e)"
    by (simp add: handle_request_def)
  have "(\<exists>pre post. referenced_ids req = pre @ x # post
                      \<and> (\<forall>j\<in>set pre. handover_map (handovers req) j \<noteq> None
                                    \<and> find_station_type (stationTypes req) j \<noteq> None))
          \<longrightarrow> e = NoHandoverData x"
  proof
    assume "\<exists>pre post. referenced_ids req = pre @ x # post
                      \<and> (\<forall>j\<in>set pre. handover_map (handovers req) j \<noteq> None
                                    \<and> find_station_type (stationTypes req) j \<noteq> None)"
    then obtain pre post where pp: "referenced_ids req = pre @ x # post"
      "\<forall>j\<in>set pre. handover_map (handovers req) j \<noteq> None
                                    \<and> find_station_type (stationTypes req) j \<noteq> None"
      by blast
    from resolve_first_missing [OF pp(2) assms(2), of post] pp(1) e
    show "e = NoHandoverData x" by simp
  qed
  with h show ?thesis by blast
qed

lemma missing_handover_facts:
  "referenced_ids missing_handover_request = [1, 2, 9]"
  "handover_map (handovers missing_handover_request) 9 = None"
  "handover_map (handovers missing_handover_request) 1 \<noteq> None"
  "handover_map (handovers missing_handover_request) 2 \<noteq> None"
  "find_station_type (stationTypes missing_handover_request) 1 \<noteq> None"
  "find_station_type (stationTypes missing_handover_request) 2 \<noteq> None"
  "validate missing_handover_request = None"
  by (simp_all add: missing_handover_request_def readme_request_def referenced_ids_def
      handover_map_def find_station_type_def validate_def validate_district_def
      validate_station_type_def)

theorem missing_handover_rejected_witness:
  "9 \<in> set (referenced_ids missing_handover_request)
   \<and> handover_map (handovers missing_handover_request) 9 = None
   \<and> handle_request None missing_handover_request = Inl (ValidationError (NoHandoverData 9))"
proof -
  have m: "9 \<in> set (referenced_ids missing_handover_request)"
    by (simp add: missing_handover_facts)
  from missing_handover_rejected [OF m missing_handover_facts(2)] obtain e
    where e: "handle_request None missing_handover_request = Inl (ValidationError e)"
      "validate missing_handover_request = None
                \<and> (\<exists>pre post. referenced_ids missing_handover_request = pre @ 9 # post
                      \<and> (\<forall>j\<in>set pre. handover_map (handovers missing_handover_request) j \<noteq> None
                                    \<and> find_station_type (stationTypes missing_handover_request) j \<noteq> None))
                \<longrightarrow> e = NoHandoverData 9"
    by blast
  have "referenced_ids missing_handover_request = [1, 2] @ 9 # []
          \<and> (\<forall>j\<in>set [1, 2]. handover_map (handovers missing_handover_request) j \<noteq> None
                \<and> find_station_type (stationTypes missing_handover_request) j \<noteq> None)"
    using missing_handover_facts(1,3-6) by simp
  then have "\<exists>pre post. referenced_ids missing_handover_request = pre @ 9 # post
                      \<and> (\<forall>j\<in>set pre. handover_map (handovers missing_handover_request) j \<noteq> None
                                    \<and> find_station_type (stationTypes missing_handover_request) j \<noteq> None)"
    by blast
  with e(2) missing_handover_facts(7) have "e = NoHandoverData 9" by blast
  with e(1) m missing_handover_facts(2) show ?thesis by simp
qed

text \<open>
  Claim C7, as stated, fails where the validator rejects the request first: a district
  of area 0 that lists station type 9, which has no handover entry, is reported for its
  area, and the error does not name the station type.
\<close>

theorem missing_handover_error_names_district:
  "handle_request None zero_area_request = Inl (ValidationError (AreaNotPositive ''d1''))
   \<and> 9 \<in> set (referenced_ids zero_area_request)
   \<and> handover_map (handovers zero_area_request) 9 = None"
  by (simp add: handle_request_def validate_def validate_district_def zero_area_request_def
      readme_request_def referenced_ids_def handover_map_def)

end
